theory Spec2Isabelle
  imports Complex_Main
begin

section \<open>Numbers\<close>

text \<open>
  The program computes with Python floats. They are modelled as exact reals: rounding error
  is outside this development, and every equation below is an equation of real arithmetic.
\<close>

section \<open>Python values and errors\<close>

text \<open>
  An exception is a value: a function that may raise returns \<open>py_error + 'a\<close>, with
  \<open>Inl\<close> for the exception.
\<close>

datatype py_error = ZeroDivisionError | IndexError | TypeError | ValueError

text \<open>\<^verbatim>\<open>a / b\<close> on numbers: true division, which raises on a zero divisor.\<close>

definition py_truediv :: "real \<Rightarrow> real \<Rightarrow> py_error + real" where
  "py_truediv a b = (if b = 0 then Inl ZeroDivisionError else Inr (a / b))"

text \<open>\<^verbatim>\<open>xs[i]\<close> for an index that is not negative.\<close>

definition py_index :: "'a list \<Rightarrow> nat \<Rightarrow> py_error + 'a" where
  "py_index xs i = (if i < length xs then Inr (xs ! i) else Inl IndexError)"

text \<open>\<^verbatim>\<open>xs[i:]\<close>: a negative start counts from the end, and the start is clipped to the list.\<close>

definition py_slice_from :: "'a list \<Rightarrow> int \<Rightarrow> 'a list" where
  "py_slice_from xs i =
     (if i < 0 then drop (nat (int (length xs) + i)) xs else drop (nat i) xs)"

text \<open>\<^verbatim>\<open>int(x)\<close> truncates towards zero.\<close>

definition py_int :: "real \<Rightarrow> int" where
  "py_int x = (if 0 \<le> x then \<lfloor>x\<rfloor> else \<lceil>x\<rceil>)"

text \<open>\<^verbatim>\<open>round(x, ndigits)\<close>: to the nearest multiple of \<open>10^-ndigits\<close>, ties to the even one.\<close>

definition round_half_even :: "real \<Rightarrow> int" where
  "round_half_even x =
     (let f = \<lfloor>x\<rfloor>; d = x - of_int f
      in if d < 1 / 2 then f else if 1 / 2 < d then f + 1 else if even f then f else f + 1)"

definition py_round :: "real \<Rightarrow> nat \<Rightarrow> real" where
  "py_round x ndigits = of_int (round_half_even (x * 10 ^ ndigits)) / 10 ^ ndigits"

text \<open>A \<^verbatim>\<open>for\<close> loop whose body may raise: the first exception ends the loop.\<close>

primrec foldM :: "('a \<Rightarrow> 's \<Rightarrow> py_error + 's) \<Rightarrow> 'a list \<Rightarrow> 's \<Rightarrow> py_error + 's" where
  "foldM f [] s = Inr s"
| "foldM f (x # xs) s = (case f x s of Inl e \<Rightarrow> Inl e | Inr s' \<Rightarrow> foldM f xs s')"

section \<open>SmoothValue\<close>

text \<open>
  \<^verbatim>\<open>class SmoothValue\<close> is defined twice with the same text, in \<^verbatim>\<open>modules/audio.py\<close> and in
  \<^verbatim>\<open>rotate.py\<close>. The functions of the first copy carry the plain names, those of the second
  the prefix \<open>rot_\<close>.
\<close>

record SmoothValue =
  current :: real
  target :: real
  smoothing :: real

definition SmoothValue_init :: "real \<Rightarrow> real \<Rightarrow> SmoothValue" where
  "SmoothValue_init initial smoothing' =
     \<lparr>current = initial, target = initial, smoothing = smoothing'\<rparr>"

definition sv_update :: "SmoothValue \<Rightarrow> SmoothValue" where
  "sv_update v = v\<lparr>current := current v + (target v - current v) * (1.0 - smoothing v)\<rparr>"

definition sv_set_target :: "real \<Rightarrow> SmoothValue \<Rightarrow> SmoothValue" where
  "sv_set_target value v = v\<lparr>target := value\<rparr>"

definition sv_get :: "SmoothValue \<Rightarrow> real" where
  "sv_get v = current v"

definition rot_sv_update :: "SmoothValue \<Rightarrow> SmoothValue" where
  "rot_sv_update v = v\<lparr>current := current v + (target v - current v) * (1.0 - smoothing v)\<rparr>"

definition rot_sv_set_target :: "real \<Rightarrow> SmoothValue \<Rightarrow> SmoothValue" where
  "rot_sv_set_target value v = v\<lparr>target := value\<rparr>"

definition rot_sv_get :: "SmoothValue \<Rightarrow> real" where
  "rot_sv_get v = current v"


definition rot_SmoothValue_init :: "real \<Rightarrow> real \<Rightarrow> SmoothValue" where
  "rot_SmoothValue_init initial smoothing' =
     \<lparr>current = initial, target = initial, smoothing = smoothing'\<rparr>"

section \<open>RotationController\<close>

text \<open>
  \<^verbatim>\<open>class RotationController\<close>, again present in both files. The constructor reads the clock
  (\<^verbatim>\<open>time.time()\<close>) into \<^verbatim>\<open>last_time\<close>; the reading is a parameter here. No method of the
  class reads or writes that field.
\<close>

record RotationController =
  rotation_x :: SmoothValue
  rotation_y :: SmoothValue
  momentum_x :: real
  momentum_y :: real
  velocity_x :: SmoothValue
  velocity_y :: SmoothValue
  auto_rotation :: bool
  transition :: SmoothValue
  damping :: real
  momentum_multiplier :: real
  rc_last_time :: real

text \<open>The methods as calls, and what a call returns (\<^verbatim>\<open>None\<close> or a truth value).\<close>

datatype rc_call =
    Update real
  | Start_orbit
  | Stop_orbit
  | Should_resume_auto_rotation
  | Resume_auto_rotation
  | Update_mouse_velocity real real real

datatype retval = RNone | RBool bool

subsection \<open>The copy in modules/audio.py\<close>

definition RotationController_init :: "real \<Rightarrow> RotationController" where
  "RotationController_init now =
     \<lparr>rotation_x = SmoothValue_init 0.0 0.8,
      rotation_y = SmoothValue_init 0.0 0.8,
      momentum_x = 0.0,
      momentum_y = 0.0,
      velocity_x = SmoothValue_init 0.0 0.6,
      velocity_y = SmoothValue_init 0.0 0.6,
      auto_rotation = True,
      transition = SmoothValue_init 1.0 0.95,
      damping = 0.95,
      momentum_multiplier = 0.2,
      rc_last_time = now\<rparr>"

definition rc_update :: "real \<Rightarrow> RotationController \<Rightarrow> RotationController" where
  "rc_update delta_time c0 =
     (let c1 = c0\<lparr>rotation_x := sv_update (rotation_x c0),
                   rotation_y := sv_update (rotation_y c0),
                   velocity_x := sv_update (velocity_x c0),
                   velocity_y := sv_update (velocity_y c0),
                   transition := sv_update (transition c0)\<rparr>;
          c2 = (if \<bar>momentum_x c1\<bar> > 0.01 \<or> \<bar>momentum_y c1\<bar> > 0.01 then
                  (let c = c1\<lparr>rotation_x :=
                               sv_set_target (sv_get (rotation_x c1) + momentum_x c1) (rotation_x c1),
                             rotation_y :=
                               sv_set_target (sv_get (rotation_y c1) + momentum_y c1) (rotation_y c1)\<rparr>;
                       velocity = (\<bar>momentum_x c\<bar> + \<bar>momentum_y c\<bar>) * 0.5;
                       dynamic_damping =
                         damping c * (0.97 + 0.03 * (1.0 - min 1.0 (velocity / 3.0)))
                   in c\<lparr>momentum_x := momentum_x c * dynamic_damping,
                        momentum_y := momentum_y c * dynamic_damping\<rparr>)
                else c1);
          c3 = (if \<bar>momentum_x c2\<bar> < 0.01 then c2\<lparr>momentum_x := 0\<rparr> else c2);
          c4 = (if \<bar>momentum_y c3\<bar> < 0.01 then c3\<lparr>momentum_y := 0\<rparr> else c3)
      in c4)"

definition start_orbit :: "RotationController \<Rightarrow> RotationController" where
  "start_orbit c =
     c\<lparr>auto_rotation := False, transition := sv_set_target 0.0 (transition c)\<rparr>"

definition stop_orbit :: "RotationController \<Rightarrow> RotationController" where
  "stop_orbit c =
     c\<lparr>momentum_x := sv_get (velocity_y c) * momentum_multiplier c,
       momentum_y := sv_get (velocity_x c) * momentum_multiplier c,
       transition := sv_set_target 1.0 (transition c),
       auto_rotation := True\<rparr>"

definition should_resume_auto_rotation :: "RotationController \<Rightarrow> bool" where
  "should_resume_auto_rotation c \<longleftrightarrow>
     \<bar>momentum_x c\<bar> < 0.3 \<and> \<bar>momentum_y c\<bar> < 0.3 \<and> sv_get (transition c) > 0.95"

definition resume_auto_rotation :: "RotationController \<Rightarrow> RotationController" where
  "resume_auto_rotation c =
     c\<lparr>auto_rotation := True, transition := sv_set_target 1.0 (transition c)\<rparr>"

definition update_mouse_velocity ::
    "real \<Rightarrow> real \<Rightarrow> real \<Rightarrow> RotationController \<Rightarrow> RotationController" where
  "update_mouse_velocity dx dy delta_time c =
     (if delta_time > 0 then
        c\<lparr>velocity_x := sv_set_target (dx / delta_time * 1.3) (velocity_x c),
          velocity_y := sv_set_target (dy / delta_time * 1.3) (velocity_y c)\<rparr>
      else c)"

text \<open>One call of a method, with the value it returns.\<close>

fun rc_apply :: "rc_call \<Rightarrow> RotationController \<Rightarrow> retval \<times> RotationController" where
  "rc_apply (Update delta_time) c = (RNone, rc_update delta_time c)"
| "rc_apply Start_orbit c = (RNone, start_orbit c)"
| "rc_apply Stop_orbit c = (RNone, stop_orbit c)"
| "rc_apply Should_resume_auto_rotation c = (RBool (should_resume_auto_rotation c), c)"
| "rc_apply Resume_auto_rotation c = (RNone, resume_auto_rotation c)"
| "rc_apply (Update_mouse_velocity dx dy delta_time) c =
     (RNone, update_mouse_velocity dx dy delta_time c)"

fun rc_run ::
    "rc_call list \<Rightarrow> RotationController \<Rightarrow> retval list \<times> RotationController" where
  "rc_run [] c = ([], c)"
| "rc_run (k # ks) c =
     (let (r, c') = rc_apply k c; (rs, c'') = rc_run ks c' in (r # rs, c''))"

subsection \<open>The copy in rotate.py\<close>

definition rot_RotationController_init :: "real \<Rightarrow> RotationController" where
  "rot_RotationController_init now =
     \<lparr>rotation_x = rot_SmoothValue_init 0.0 0.8,
      rotation_y = rot_SmoothValue_init 0.0 0.8,
      momentum_x = 0.0,
      momentum_y = 0.0,
      velocity_x = rot_SmoothValue_init 0.0 0.6,
      velocity_y = rot_SmoothValue_init 0.0 0.6,
      auto_rotation = True,
      transition = rot_SmoothValue_init 1.0 0.95,
      damping = 0.95,
      momentum_multiplier = 0.2,
      rc_last_time = now\<rparr>"

definition rot_rc_update :: "real \<Rightarrow> RotationController \<Rightarrow> RotationController" where
  "rot_rc_update delta_time c0 =
     (let c1 = c0\<lparr>rotation_x := rot_sv_update (rotation_x c0),
                   rotation_y := rot_sv_update (rotation_y c0),
                   velocity_x := rot_sv_update (velocity_x c0),
                   velocity_y := rot_sv_update (velocity_y c0),
                   transition := rot_sv_update (transition c0)\<rparr>;
          c2 = (if \<bar>momentum_x c1\<bar> > 0.01 \<or> \<bar>momentum_y c1\<bar> > 0.01 then
                  (let c = c1\<lparr>rotation_x :=
                               rot_sv_set_target (rot_sv_get (rotation_x c1) + momentum_x c1) (rotation_x c1),
                             rotation_y :=
                               rot_sv_set_target (rot_sv_get (rotation_y c1) + momentum_y c1) (rotation_y c1)\<rparr>;
                       velocity = (\<bar>momentum_x c\<bar> + \<bar>momentum_y c\<bar>) * 0.5;
                       dynamic_damping =
                         damping c * (0.97 + 0.03 * (1.0 - min 1.0 (velocity / 3.0)))
                   in c\<lparr>momentum_x := momentum_x c * dynamic_damping,
                        momentum_y := momentum_y c * dynamic_damping\<rparr>)
                else c1);
          c3 = (if \<bar>momentum_x c2\<bar> < 0.01 then c2\<lparr>momentum_x := 0\<rparr> else c2);
          c4 = (if \<bar>momentum_y c3\<bar> < 0.01 then c3\<lparr>momentum_y := 0\<rparr> else c3)
      in c4)"

definition rot_start_orbit :: "RotationController \<Rightarrow> RotationController" where
  "rot_start_orbit c =
     c\<lparr>auto_rotation := False, transition := rot_sv_set_target 0.0 (transition c)\<rparr>"

definition rot_stop_orbit :: "RotationController \<Rightarrow> RotationController" where
  "rot_stop_orbit c =
     c\<lparr>momentum_x := rot_sv_get (velocity_y c) * momentum_multiplier c,
       momentum_y := rot_sv_get (velocity_x c) * momentum_multiplier c,
       transition := rot_sv_set_target 1.0 (transition c),
       auto_rotation := True\<rparr>"

definition rot_should_resume_auto_rotation :: "RotationController \<Rightarrow> bool" where
  "rot_should_resume_auto_rotation c \<longleftrightarrow>
     \<bar>momentum_x c\<bar> < 0.3 \<and> \<bar>momentum_y c\<bar> < 0.3 \<and> rot_sv_get (transition c) > 0.95"

definition rot_resume_auto_rotation :: "RotationController \<Rightarrow> RotationController" where
  "rot_resume_auto_rotation c =
     c\<lparr>auto_rotation := True, transition := rot_sv_set_target 1.0 (transition c)\<rparr>"

definition rot_update_mouse_velocity ::
    "real \<Rightarrow> real \<Rightarrow> real \<Rightarrow> RotationController \<Rightarrow> RotationController" where
  "rot_update_mouse_velocity dx dy delta_time c =
     (if delta_time > 0 then
        c\<lparr>velocity_x := rot_sv_set_target (dx / delta_time * 1.3) (velocity_x c),
          velocity_y := rot_sv_set_target (dy / delta_time * 1.3) (velocity_y c)\<rparr>
      else c)"

text \<open>One call of a method, with the value it returns.\<close>

fun rot_rc_apply :: "rc_call \<Rightarrow> RotationController \<Rightarrow> retval \<times> RotationController" where
  "rot_rc_apply (Update delta_time) c = (RNone, rot_rc_update delta_time c)"
| "rot_rc_apply Start_orbit c = (RNone, rot_start_orbit c)"
| "rot_rc_apply Stop_orbit c = (RNone, rot_stop_orbit c)"
| "rot_rc_apply Should_resume_auto_rotation c = (RBool (rot_should_resume_auto_rotation c), c)"
| "rot_rc_apply Resume_auto_rotation c = (RNone, rot_resume_auto_rotation c)"
| "rot_rc_apply (Update_mouse_velocity dx dy delta_time) c =
     (RNone, rot_update_mouse_velocity dx dy delta_time c)"

fun rot_rc_run ::
    "rc_call list \<Rightarrow> RotationController \<Rightarrow> retval list \<times> RotationController" where
  "rot_rc_run [] c = ([], c)"
| "rot_rc_run (k # ks) c =
     (let (r, c') = rot_rc_apply k c; (rs, c'') = rot_rc_run ks c' in (r # rs, c''))"


section \<open>The transport of the OpenGL widget (modules/audio.py)\<close>

text \<open>
  \<^verbatim>\<open>class MorphOpenGLWidget\<close>: the rotation controller, the clock reading of the last tick and
  the playback clock. The Qt timer, the mouse position, the repaint requests
  (\<^verbatim>\<open>self.update()\<close>) and the button texts set through the parent window are not part of the
  state below: none of them is read by the methods modelled here. The readings of
  \<^verbatim>\<open>time.time()\<close> are parameters.
\<close>

record MorphOpenGLWidget =
  controller :: RotationController
  last_time :: real
  elapsed :: real
  duration :: real
  paused :: bool
  rewind_mode :: bool
  speed :: real
  subdivisions :: int

definition MorphOpenGLWidget_init :: "real \<Rightarrow> real \<Rightarrow> MorphOpenGLWidget" where
  "MorphOpenGLWidget_init now_controller now =
     \<lparr>controller = RotationController_init now_controller,
      last_time = now,
      elapsed = 0.0,
      duration = 30.0,
      paused = True,
      rewind_mode = False,
      speed = 1.0,
      subdivisions = 5\<rparr>"


definition set_position :: "real \<Rightarrow> MorphOpenGLWidget \<Rightarrow> MorphOpenGLWidget" where
  "set_position position_seconds w =
     w\<lparr>elapsed := max 0.0 (min position_seconds (duration w))\<rparr>"

definition toggle_play_pause :: "MorphOpenGLWidget \<Rightarrow> MorphOpenGLWidget" where
  "toggle_play_pause w = (let w1 = w\<lparr>rewind_mode := False\<rparr> in w1\<lparr>paused := \<not> paused w1\<rparr>)"

definition toggle_rewind :: "MorphOpenGLWidget \<Rightarrow> MorphOpenGLWidget" where
  "toggle_rewind w =
     (if rewind_mode w then w\<lparr>rewind_mode := False, paused := True\<rparr>
      else w\<lparr>rewind_mode := True, paused := False\<rparr>)"



section \<open>The transport of the progress window (rotate.py)\<close>








section \<open>EnhancedAudioPlayer\<close>

text \<open>
  The player of both files. The sound device (\<^verbatim>\<open>sounddevice\<close>, a module-wide object) is
  modelled by the list of the calls made to it, oldest first: \<^verbatim>\<open>sd.stop()\<close> and
  \<^verbatim>\<open>sd.play(chunk, samplerate=...)\<close>. Both \<^verbatim>\<open>audio_data\<close> and \<^verbatim>\<open>sample_rate\<close> start as
  \<^verbatim>\<open>None\<close>.
\<close>

datatype sd_call = Sd_stop | Sd_play "real list" int

record EnhancedAudioPlayer =
  audio_data :: "real list option"
  sample_rate :: "int option"
  playing :: bool
  player_paused :: bool
  current_position :: real
  player_speed :: real
  is_rewinding :: bool

definition EnhancedAudioPlayer_init :: EnhancedAudioPlayer where
  "EnhancedAudioPlayer_init =
     \<lparr>audio_data = None,
      sample_rate = None,
      playing = False,
      player_paused = False,
      current_position = 0.0,
      player_speed = 1.0,
      is_rewinding = False\<rparr>"

text \<open>\<^verbatim>\<open>play\<close> of modules/audio.py; \<open>from_pos = None\<close> is the default argument.\<close>

definition play ::
    "real option \<Rightarrow> EnhancedAudioPlayer \<times> sd_call list
       \<Rightarrow> py_error + EnhancedAudioPlayer \<times> sd_call list" where
  "play from_pos = (\<lambda>(p, sd).
     case audio_data p of
       None \<Rightarrow> Inr (p, sd)
     | Some data \<Rightarrow>
         (let p1 = (case from_pos of None \<Rightarrow> p | Some pos \<Rightarrow> p\<lparr>current_position := pos\<rparr>)
          in case sample_rate p1 of
               None \<Rightarrow> Inl TypeError
             | Some sr \<Rightarrow>
                 (let start_sample = py_int (current_position p1 * of_int sr);
                      sd1 = sd @ [Sd_stop]
                  in if start_sample < int (length data) then
                       (let chunk = py_slice_from data start_sample;
                            sd2 = sd1 @ [Sd_play chunk (py_int (of_int sr * player_speed p1))]
                        in Inr (p1\<lparr>playing := True, player_paused := False\<rparr>, sd2))
                     else Inr (p1, sd1))))"

text \<open>\<^verbatim>\<open>play\<close> of rotate.py: the same without the test of \<^verbatim>\<open>start_sample\<close>.\<close>

definition rot_play ::
    "real option \<Rightarrow> EnhancedAudioPlayer \<times> sd_call list
       \<Rightarrow> py_error + EnhancedAudioPlayer \<times> sd_call list" where
  "rot_play from_pos = (\<lambda>(p, sd).
     case audio_data p of
       None \<Rightarrow> Inr (p, sd)
     | Some data \<Rightarrow>
         (let p1 = (case from_pos of None \<Rightarrow> p | Some pos \<Rightarrow> p\<lparr>current_position := pos\<rparr>)
          in case sample_rate p1 of
               None \<Rightarrow> Inl TypeError
             | Some sr \<Rightarrow>
                 (let start_sample = py_int (current_position p1 * of_int sr);
                      sd1 = sd @ [Sd_stop];
                      chunk = py_slice_from data start_sample;
                      sd2 = sd1 @ [Sd_play chunk (py_int (of_int sr * player_speed p1))]
                  in Inr (p1\<lparr>playing := True, player_paused := False\<rparr>, sd2))))"

section \<open>Geometry\<close>

text \<open>A point is a list of three floats in the source; here a triple.\<close>

type_synonym vec3 = "real \<times> real \<times> real"

fun interpolate :: "vec3 \<Rightarrow> vec3 \<Rightarrow> real \<Rightarrow> vec3" where
  "interpolate (x1, y1, z1) (x2, y2, z2) t =
     (x1 + (x2 - x1) * t, y1 + (y2 - y1) * t, z1 + (z2 - z1) * t)"

definition cube_vertices :: "real \<Rightarrow> vec3 list" where
  "cube_vertices size' =
     [(- size', - size', - size'), (size', - size', - size'), (size', size', - size'),
      (- size', size', - size'), (- size', - size', size'), (size', - size', size'),
      (size', size', size'), (- size', size', size')]"

definition cube_quads :: "nat list list" where
  "cube_quads =
     [[0, 3, 2, 1], [4, 5, 6, 7], [0, 1, 5, 4], [3, 7, 6, 2], [0, 4, 7, 3], [1, 2, 6, 5]]"

subsection \<open>Adding a vertex\<close>

text \<open>
  modules/audio.py looks the point up, rounded to six decimals, in the dictionary
  \<^verbatim>\<open>vertex_cache\<close>; the state is the vertex list and the dictionary.
\<close>

fun point_tuple :: "vec3 \<Rightarrow> vec3" where
  "point_tuple (x, y, z) = (py_round x 6, py_round y 6, py_round z 6)"

fun add_cached ::
    "vec3 \<Rightarrow> vec3 list \<times> (vec3 \<rightharpoonup> nat) \<Rightarrow> nat \<times> (vec3 list \<times> (vec3 \<rightharpoonup> nat))" where
  "add_cached point (vertices, vertex_cache) =
     (case vertex_cache (point_tuple point) of
        Some idx \<Rightarrow> (idx, (vertices, vertex_cache))
      | None \<Rightarrow>
          (let vertices' = vertices @ [point];
               idx = length vertices' - 1
           in (idx, (vertices', vertex_cache(point_tuple point \<mapsto> idx)))))"

text \<open>
  rotate.py searches the vertex list for the first vertex that \<^verbatim>\<open>np.allclose\<close> accepts
  (relative tolerance \<open>1e-5\<close>, absolute tolerance \<open>1e-8\<close>); the state is the vertex list.
\<close>

definition isclose :: "real \<Rightarrow> real \<Rightarrow> bool" where
  "isclose a b \<longleftrightarrow> \<bar>a - b\<bar> \<le> 1 / 10 ^ 8 + 1 / 10 ^ 5 * \<bar>b\<bar>"

fun allclose :: "vec3 \<Rightarrow> vec3 \<Rightarrow> bool" where
  "allclose (x1, y1, z1) (x2, y2, z2) \<longleftrightarrow> isclose x1 x2 \<and> isclose y1 y2 \<and> isclose z1 z2"

fun find_close :: "vec3 \<Rightarrow> vec3 list \<Rightarrow> nat \<Rightarrow> nat option" where
  "find_close v [] i = None"
| "find_close v (existing # rest) i =
     (if allclose v existing then Some i else find_close v rest (Suc i))"

definition add_vertex :: "vec3 \<Rightarrow> vec3 list \<Rightarrow> nat \<times> vec3 list" where
  "add_vertex v vertices =
     (case find_close v vertices 0 of
        Some i \<Rightarrow> (i, vertices)
      | None \<Rightarrow> (let vertices' = vertices @ [v] in (length vertices' - 1, vertices')))"

subsection \<open>The loops over the faces\<close>

text \<open>
  The loops of \<^verbatim>\<open>_create_tessellated_cube\<close> (modules/audio.py) and of
  \<^verbatim>\<open>create_tessellated_cube\<close> (rotate.py) have the same text but for the way a point is
  added. They are written once, over the step \<open>add\<close> that adds a point to the builder's
  state \<open>s\<close> and returns its index. \<open>n\<close> is \<^verbatim>\<open>subdivisions\<close>, a Python integer;
  \<^verbatim>\<open>range(n + 1)\<close> is \<open>[0..<nat (n + 1)]\<close>, empty when \<open>n < 0\<close>.
\<close>

definition grid_point :: "vec3 list \<Rightarrow> real \<Rightarrow> real \<Rightarrow> vec3" where
  "grid_point corners t1 t2 =
     (let edge1 = interpolate (corners ! 0) (corners ! 1) t2;
          edge2 = interpolate (corners ! 3) (corners ! 2) t2
      in interpolate edge1 edge2 t1)"

definition row_step ::
    "(vec3 \<Rightarrow> 's \<Rightarrow> nat \<times> 's) \<Rightarrow> vec3 list \<Rightarrow> int \<Rightarrow> real \<Rightarrow> nat
       \<Rightarrow> nat list \<times> 's \<Rightarrow> py_error + nat list \<times> 's" where
  "row_step add corners n t1 j = (\<lambda>(row_indices, s).
     case py_truediv (real j) (of_int n) of
       Inl e \<Rightarrow> Inl e
     | Inr t2 \<Rightarrow>
         (let point = grid_point corners t1 t2;
              (idx, s') = add point s
          in Inr (row_indices @ [idx], s')))"

definition grid_step ::
    "(vec3 \<Rightarrow> 's \<Rightarrow> nat \<times> 's) \<Rightarrow> vec3 list \<Rightarrow> int \<Rightarrow> nat
       \<Rightarrow> nat list list \<times> 's \<Rightarrow> py_error + nat list list \<times> 's" where
  "grid_step add corners n i = (\<lambda>(grid_indices, s).
     case py_truediv (real i) (of_int n) of
       Inl e \<Rightarrow> Inl e
     | Inr t1 \<Rightarrow>
         (case foldM (row_step add corners n t1) [0..<nat (n + 1)] ([], s) of
            Inl e \<Rightarrow> Inl e
          | Inr (row_indices, s') \<Rightarrow> Inr (grid_indices @ [row_indices], s')))"

definition grid_at :: "nat list list \<Rightarrow> nat \<Rightarrow> nat \<Rightarrow> py_error + nat" where
  "grid_at grid_indices i j =
     (case py_index grid_indices i of Inl e \<Rightarrow> Inl e | Inr row \<Rightarrow> py_index row j)"

definition edge_step ::
    "int \<Rightarrow> nat list list \<Rightarrow> nat \<times> nat \<Rightarrow> (nat \<times> nat) list \<Rightarrow> py_error + (nat \<times> nat) list" where
  "edge_step n grid_indices = (\<lambda>(i, j) edges.
     case grid_at grid_indices i j of
       Inl e \<Rightarrow> Inl e
     | Inr a \<Rightarrow>
         (case grid_at grid_indices i (j + 1) of
            Inl e \<Rightarrow> Inl e
          | Inr b \<Rightarrow>
              (let edges1 = edges @ [(a, b)]
               in if int i < n then
                    (case grid_at grid_indices i j of
                       Inl e \<Rightarrow> Inl e
                     | Inr a' \<Rightarrow>
                         (case grid_at grid_indices (i + 1) j of
                            Inl e \<Rightarrow> Inl e
                          | Inr c \<Rightarrow> Inr (edges1 @ [(a', c)])))
                  else Inr edges1)))"

definition face_step ::
    "(vec3 \<Rightarrow> 's \<Rightarrow> nat \<times> 's) \<Rightarrow> vec3 list \<Rightarrow> int \<Rightarrow> nat list
       \<Rightarrow> 's \<times> (nat \<times> nat) list \<Rightarrow> py_error + 's \<times> (nat \<times> nat) list" where
  "face_step add basic_vertices n quad = (\<lambda>(s, edges).
     let corners = map (\<lambda>i. basic_vertices ! i) quad
     in case foldM (grid_step add corners n) [0..<nat (n + 1)] ([], s) of
          Inl e \<Rightarrow> Inl e
        | Inr (grid_indices, s') \<Rightarrow>
            (case foldM (edge_step n grid_indices)
                    (List.product [0..<nat (n + 1)] [0..<nat n]) edges of
               Inl e \<Rightarrow> Inl e
             | Inr edges' \<Rightarrow> Inr (s', edges')))"

definition tessellate ::
    "(vec3 \<Rightarrow> 's \<Rightarrow> nat \<times> 's) \<Rightarrow> 's \<Rightarrow> real \<Rightarrow> int \<Rightarrow> py_error + 's \<times> (nat \<times> nat) list" where
  "tessellate add s0 size' n = foldM (face_step add (cube_vertices size') n) cube_quads (s0, [])"

text \<open>
  modules/audio.py. The source converts the vertex list to an array of 32-bit floats on
  return; the conversion keeps the number and the order of the vertices.
\<close>

definition create_tessellated_cube :: "real \<Rightarrow> int \<Rightarrow> py_error + vec3 list \<times> (nat \<times> nat) list" where
  "create_tessellated_cube size' n =
     (case tessellate add_cached ([], Map.empty) size' n of
        Inl e \<Rightarrow> Inl e
      | Inr ((vertices, vertex_cache), edges) \<Rightarrow> Inr (vertices, edges))"

text \<open>rotate.py.\<close>

definition rot_create_tessellated_cube ::
    "real \<Rightarrow> int \<Rightarrow> py_error + vec3 list \<times> (nat \<times> nat) list" where
  "rot_create_tessellated_cube size' n = tessellate add_vertex [] size' n"

subsection \<open>What the loops need of the step that adds a point\<close>



subsection \<open>The sphere\<close>

fun sphere_vertex :: "real \<Rightarrow> vec3 \<Rightarrow> vec3" where
  "sphere_vertex radius (x, y, z) =
     (let distance = sqrt (x\<^sup>2 + y\<^sup>2 + z\<^sup>2)
      in if distance < 0.0001 then (0, 0, 0)
         else (x / distance * radius, y / distance * radius, z / distance * radius))"

definition generate_sphere_vertices :: "vec3 list \<Rightarrow> real \<Rightarrow> vec3 list" where
  "generate_sphere_vertices cube radius = map (sphere_vertex radius) cube"

fun rot_sphere_vertex :: "real \<Rightarrow> vec3 \<Rightarrow> vec3" where
  "rot_sphere_vertex radius (x, y, z) =
     (let distance = sqrt (x\<^sup>2 + y\<^sup>2 + z\<^sup>2)
      in if distance < 0.0001 then (0, 0, 0)
         else (x / distance * radius, y / distance * radius, z / distance * radius))"

definition rot_generate_sphere_vertices :: "vec3 list \<Rightarrow> real \<Rightarrow> vec3 list" where
  "rot_generate_sphere_vertices cube radius = map (rot_sphere_vertex radius) cube"

text \<open>
  \<^verbatim>\<open>_create_geometry\<close> of the widget (size 1, the widget's \<^verbatim>\<open>subdivisions\<close>, radius 1) returns
  here the three values it stores: cube vertices, sphere vertices, edges. The animation
  thread of rotate.py builds its geometry by the same two calls with five subdivisions.
\<close>

definition create_geometry ::
    "MorphOpenGLWidget \<Rightarrow> py_error + vec3 list \<times> vec3 list \<times> (nat \<times> nat) list" where
  "create_geometry w =
     (case create_tessellated_cube 1.0 (subdivisions w) of
        Inl e \<Rightarrow> Inl e
      | Inr (cube, edges) \<Rightarrow> Inr (cube, generate_sphere_vertices cube 1.0, edges))"

definition rot_create_geometry :: "py_error + vec3 list \<times> vec3 list \<times> (nat \<times> nat) list" where
  "rot_create_geometry =
     (case rot_create_tessellated_cube 1.0 5 of
        Inl e \<Rightarrow> Inl e
      | Inr (cube, edges) \<Rightarrow> Inr (cube, rot_generate_sphere_vertices cube 1.0, edges))"

section \<open>The morph\<close>










section \<open>States used as examples\<close>



text \<open>A controller in mid-drag: the pointer moved by \<open>(3, 4)\<close> in half a second, then one tick.\<close>

definition drag_state :: RotationController where
  "drag_state = rc_update 0.016 (update_mouse_velocity 3 4 0.5 (RotationController_init 0))"

text \<open>The widget right after its first \<^verbatim>\<open>toggle_play_pause\<close>, and 10 ms before the end.\<close>

definition playing_widget :: MorphOpenGLWidget where
  "playing_widget = toggle_play_pause (MorphOpenGLWidget_init 0 0)"


text \<open>The widget sought to 10 s and then set to rewind; the same 32 ms before the start.\<close>

definition rewinding_widget :: MorphOpenGLWidget where
  "rewinding_widget = toggle_rewind (set_position 10 (MorphOpenGLWidget_init 0 0))"








section \<open>Properties of SmoothValue\<close>

lemma sv_update_fields:
  "current (sv_update v) = current v + (target v - current v) * (1 - smoothing v)"
  "target (sv_update v) = target v"
  "smoothing (sv_update v) = smoothing v"
  by (simp_all add: sv_update_def)






section \<open>The two copies of the rotation controller\<close>

lemma rot_sv_eq:
  "rot_sv_update = sv_update" "rot_sv_set_target = sv_set_target" "rot_sv_get = sv_get"
  "rot_SmoothValue_init = SmoothValue_init"
  by (simp_all add: fun_eq_iff rot_sv_update_def sv_update_def rot_sv_set_target_def
      sv_set_target_def rot_sv_get_def sv_get_def rot_SmoothValue_init_def SmoothValue_init_def)

lemma rot_rc_update_eq: "rot_rc_update dt c = rc_update dt c"
  unfolding rot_rc_update_def rc_update_def rot_sv_eq ..

lemma rot_methods_eq:
  "rot_start_orbit c = start_orbit c"
  "rot_stop_orbit c = stop_orbit c"
  "rot_should_resume_auto_rotation c = should_resume_auto_rotation c"
  "rot_resume_auto_rotation c = resume_auto_rotation c"
  "rot_update_mouse_velocity dx dy dt c = update_mouse_velocity dx dy dt c"
  unfolding rot_start_orbit_def start_orbit_def rot_stop_orbit_def stop_orbit_def
    rot_should_resume_auto_rotation_def should_resume_auto_rotation_def
    rot_resume_auto_rotation_def resume_auto_rotation_def
    rot_update_mouse_velocity_def update_mouse_velocity_def rot_sv_eq by (rule refl)+

lemma rot_rc_apply_eq: "rot_rc_apply k c = rc_apply k c"
  by (cases k) (simp_all add: rot_rc_update_eq rot_methods_eq)

text \<open>
  Claim C10. The rotation controller of rotate.py and the one of modules/audio.py behave
  alike: the constructors build the same state, and from every state every sequence of
  calls of \<^verbatim>\<open>update\<close>, \<^verbatim>\<open>start_orbit\<close>, \<^verbatim>\<open>stop_orbit\<close>, \<^verbatim>\<open>should_resume_auto_rotation\<close>,
  \<^verbatim>\<open>resume_auto_rotation\<close> and \<^verbatim>\<open>update_mouse_velocity\<close> returns the same values and ends in
  the same state in both copies.
\<close>

theorem rotation_controllers_agree:
  "rot_RotationController_init now = RotationController_init now \<and>
   rot_rc_run calls c = rc_run calls c"
proof
  show "rot_RotationController_init now = RotationController_init now"
    unfolding rot_RotationController_init_def RotationController_init_def rot_sv_eq ..
  show "rot_rc_run calls c = rc_run calls c"
    by (induction calls arbitrary: c) (simp_all add: rot_rc_apply_eq)
qed


section \<open>Properties of the transport\<close>

























subsection \<open>Rewind\<close>











subsection \<open>Seeking\<close>

lemma example_durations:
  "duration playing_widget = 30" "duration rewinding_widget = 30" "rewind_mode rewinding_widget"
  by (simp_all add: playing_widget_def rewinding_widget_def toggle_play_pause_def toggle_rewind_def
      set_position_def MorphOpenGLWidget_init_def Let_def)

text \<open>
  Claim C8. In every state of the widget and for every argument, \<^verbatim>\<open>set_position\<close> stores
  \<open>elapsed = max 0 (min position duration)\<close> and changes nothing else of the transport;
  with a duration that is not negative this is the position clamped to \<open>[0, duration]\<close>.
  Seeking to \<open>duration + 100\<close> gives \<open>duration\<close>, seeking to \<open>-5\<close> gives 0. The slider of
  the main window (modules/ui.py, \<^verbatim>\<open>slider_released\<close>) seeks through this method.
\<close>

theorem set_position_clamps:
  "elapsed (set_position p w) = max 0 (min p (duration w)) \<and>
   duration (set_position p w) = duration w \<and>
   paused (set_position p w) = paused w \<and>
   rewind_mode (set_position p w) = rewind_mode w \<and>
   speed (set_position p w) = speed w \<and>
   (0 \<le> duration w \<longrightarrow>
      elapsed (set_position p w) = (if p < 0 then 0 else if duration w < p then duration w else p) \<and>
      elapsed (set_position (duration w + 100) w) = duration w) \<and>
   elapsed (set_position (- 5) w) = 0"
  by (auto simp add: set_position_def)

theorem set_position_clamps_witness:
  "0 \<le> duration playing_widget \<and>
   elapsed (set_position 12 playing_widget) = 12 \<and>
   elapsed (set_position (duration playing_widget + 100) playing_widget) = 30 \<and>
   elapsed (set_position (- 5) playing_widget) = 0 \<and>
   elapsed (set_position 130 rewinding_widget) = 30 \<and>
   rewind_mode (set_position 130 rewinding_widget)"
  using set_position_clamps[of 12 playing_widget] set_position_clamps[of 130 rewinding_widget]
  by (simp add: example_durations)

section \<open>Properties of the rotation controller\<close>

lemma sv_methods:
  "sv_set_target x v = v\<lparr>target := x\<rparr>" "sv_get v = current v"
  by (simp_all add: sv_set_target_def sv_get_def)

lemma rc_update_keeps_multiplier: "momentum_multiplier (rc_update dt c) = momentum_multiplier c"
  unfolding rc_update_def Let_def
  by (simp add: if_distrib[of momentum_multiplier] split del: if_split cong del: if_weak_cong)

lemma rc_apply_keeps_multiplier:
  "momentum_multiplier (snd (rc_apply k c)) = momentum_multiplier c"
  by (cases k) (simp_all add: rc_update_keeps_multiplier start_orbit_def stop_orbit_def
      resume_auto_rotation_def update_mouse_velocity_def)

lemma rc_run_keeps_multiplier:
  "momentum_multiplier (snd (rc_run calls c)) = momentum_multiplier c"
proof (induction calls arbitrary: c)
  case Nil
  show ?case by simp
next
  case (Cons k ks)
  have "snd (rc_run (k # ks) c) = snd (rc_run ks (snd (rc_apply k c)))"
    by (simp add: split_beta)
  then show ?case using Cons.IH[of "snd (rc_apply k c)"] rc_apply_keeps_multiplier[of k c] by simp
qed

lemma drag_state_fields:
  "current (velocity_x drag_state) = 3.12" "current (velocity_y drag_state) = 4.16"
  "target (velocity_x drag_state) = 7.8" "target (velocity_y drag_state) = 10.4"
  "momentum_multiplier drag_state = 0.2"
  unfolding drag_state_def rc_update_keeps_multiplier
  unfolding rc_update_def Let_def
  by (simp_all add: update_mouse_velocity_def RotationController_init_def SmoothValue_init_def
      sv_update_fields sv_methods)

text \<open>
  Claim C7, as the code has it. \<^verbatim>\<open>stop_orbit\<close> crosses the axes and reads the smoothed
  velocities: \<open>momentum_x\<close> becomes the current value of \<open>velocity_y\<close> times
  \<open>momentum_multiplier\<close>, \<open>momentum_y\<close> the current value of \<open>velocity_x\<close> times
  \<open>momentum_multiplier\<close>. In the same call the target of \<open>transition\<close> becomes 1 and
  \<open>auto_rotation\<close> becomes true; orientation, velocities and the current value of
  \<open>transition\<close> stay. The multiplier is 0.2 after the constructor and no method changes
  it. Both copies of the method agree.
\<close>

theorem stop_orbit_effect:
  "momentum_x (stop_orbit c) = current (velocity_y c) * momentum_multiplier c \<and>
   momentum_y (stop_orbit c) = current (velocity_x c) * momentum_multiplier c \<and>
   target (transition (stop_orbit c)) = 1 \<and>
   auto_rotation (stop_orbit c) \<and>
   current (transition (stop_orbit c)) = current (transition c) \<and>
   velocity_x (stop_orbit c) = velocity_x c \<and>
   velocity_y (stop_orbit c) = velocity_y c \<and>
   rotation_x (stop_orbit c) = rotation_x c \<and>
   rotation_y (stop_orbit c) = rotation_y c \<and>
   rot_stop_orbit c = stop_orbit c \<and>
   momentum_multiplier (RotationController_init now) = 0.2 \<and>
   momentum_multiplier (snd (rc_run calls c)) = momentum_multiplier c"
  by (simp add: stop_orbit_def rot_methods_eq sv_methods RotationController_init_def
      rc_run_keeps_multiplier)

theorem stop_orbit_effect_witness:
  "momentum_x (stop_orbit drag_state) = 0.832 \<and>
   momentum_y (stop_orbit drag_state) = 0.624 \<and>
   target (transition (stop_orbit drag_state)) = 1 \<and>
   auto_rotation (stop_orbit drag_state)"
  using stop_orbit_effect[of drag_state] by (simp add: drag_state_fields)

theorem stop_orbit_counterexample:
  "momentum_x (stop_orbit drag_state) \<noteq> current (velocity_x drag_state) * 0.2 \<and>
   momentum_x (stop_orbit drag_state) \<noteq> target (velocity_x drag_state) * 0.2 \<and>
   momentum_y (stop_orbit drag_state) \<noteq> current (velocity_y drag_state) * 0.2 \<and>
   momentum_y (stop_orbit drag_state) \<noteq> target (velocity_y drag_state) * 0.2"
  by (simp add: stop_orbit_def sv_methods drag_state_fields)

section \<open>Properties of the audio player\<close>

text \<open>
  Claim C9. When no audio data is loaded, \<^verbatim>\<open>play\<close> returns without an exception and
  leaves the whole player and the sound device as they were: no field changes and no
  call reaches the device, with or without a \<open>from_pos\<close> argument, in both files.
\<close>

theorem play_without_audio:
  "audio_data p = None \<Longrightarrow>
     play from_pos (p, sd) = Inr (p, sd) \<and> rot_play from_pos (p, sd) = Inr (p, sd)"
  by (simp add: play_def rot_play_def)

theorem play_without_audio_witness:
  "audio_data EnhancedAudioPlayer_init = None \<and>
   play (Some 3) (EnhancedAudioPlayer_init, []) = Inr (EnhancedAudioPlayer_init, []) \<and>
   rot_play (Some 3) (EnhancedAudioPlayer_init, []) = Inr (EnhancedAudioPlayer_init, []) \<and>
   play None (EnhancedAudioPlayer_init, [Sd_stop]) = Inr (EnhancedAudioPlayer_init, [Sd_stop])"
  using play_without_audio[of EnhancedAudioPlayer_init "Some 3" "[]"]
    play_without_audio[of EnhancedAudioPlayer_init None "[Sd_stop]"]
  by (simp add: EnhancedAudioPlayer_init_def)


section \<open>Properties of the morph\<close>
















section \<open>Properties of the geometry builder\<close>


















text \<open>
  Claim C3, as the code has it. Neither builder checks \<^verbatim>\<open>subdivisions\<close>. With
  \<^verbatim>\<open>subdivisions = 0\<close> the first pass of the grid loop divides by zero, and the
  construction ends with \<^verbatim>\<open>ZeroDivisionError\<close>, for every size and also through
  \<^verbatim>\<open>_create_geometry\<close>. With a negative \<^verbatim>\<open>subdivisions\<close> the loops are empty and the
  builder returns no vertices and no edges, without an exception.
\<close>

theorem no_subdivision_check:
  "create_tessellated_cube size' 0 = Inl ZeroDivisionError \<and>
   rot_create_tessellated_cube size' 0 = Inl ZeroDivisionError \<and>
   create_geometry (w\<lparr>subdivisions := 0\<rparr>) = Inl ZeroDivisionError \<and>
   (n < 0 \<longrightarrow>
      create_tessellated_cube size' n = Inr ([], []) \<and>
      rot_create_tessellated_cube size' n = Inr ([], []))"
proof (intro conjI impI)
  show z: "create_tessellated_cube size' 0 = Inl ZeroDivisionError" for size'
    by (simp add: create_tessellated_cube_def tessellate_def cube_quads_def face_step_def
        grid_step_def py_truediv_def)
  show "rot_create_tessellated_cube size' 0 = Inl ZeroDivisionError"
    by (simp add: rot_create_tessellated_cube_def tessellate_def cube_quads_def face_step_def
        grid_step_def py_truediv_def)
  show "create_geometry (w\<lparr>subdivisions := 0\<rparr>) = Inl ZeroDivisionError"
    by (simp add: create_geometry_def z)
next
  assume "n < 0"
  then have e: "[0..<nat (n + 1)] = []" by simp
  have f: "face_step add basic n quad (s, edges) = Inr (s, edges)"
    for add :: "vec3 \<Rightarrow> 's \<Rightarrow> nat \<times> 's" and basic quad s edges
    by (simp add: face_step_def e)
  show "create_tessellated_cube size' n = Inr ([], [])"
    by (simp add: create_tessellated_cube_def tessellate_def cube_quads_def f)
  show "rot_create_tessellated_cube size' n = Inr ([], [])"
    by (simp add: rot_create_tessellated_cube_def tessellate_def cube_quads_def f)
qed

theorem no_subdivision_check_witness:
  "(- 1 :: int) < 0 \<and>
   create_tessellated_cube 1 (- 1) = Inr ([], []) \<and>
   rot_create_tessellated_cube 1 (- 1) = Inr ([], []) \<and>
   create_tessellated_cube 1 0 = Inl ZeroDivisionError \<and>
   create_geometry ((MorphOpenGLWidget_init 0 0)\<lparr>subdivisions := 0\<rparr>) = Inl ZeroDivisionError"
  using no_subdivision_check[of 1 "MorphOpenGLWidget_init 0 0" "- 1"] by simp

theorem subdivision_zero_counterexample:
  "create_tessellated_cube 1 0 = Inl ZeroDivisionError \<and>
   rot_create_tessellated_cube 1 0 = Inl ZeroDivisionError \<and>
   py_truediv 0 0 = Inl ZeroDivisionError \<and>
   create_tessellated_cube 1 (- 1) = Inr ([], [])"
  by (simp add: create_tessellated_cube_def rot_create_tessellated_cube_def tessellate_def
      cube_quads_def face_step_def grid_step_def py_truediv_def)

end
